theory Spec2Isabelle
  imports Main "HOL-Library.Word"
begin

section \<open>Download accounting: the DownloadCounterService\<close>

text \<open>
  A shallow embedding of \<^verbatim>\<open>DownloadCounterService\<close> (the service that listens for
  \<^verbatim>\<open>s3:ObjectAccessed:Get\<close> notifications, keeps one download tracker per
  (path, ipHash) pair and updates the download counters of mod versions and launcher
  versions). Asynchronous calls are modelled in the order in which the source issues
  them; a rejected promise is an error value.
\<close>

subsection \<open>Strings\<close>

text \<open>
  A JavaScript string is a sequence of UTF-16 code units. The regular expressions of the
  service carry no \<^verbatim>\<open>u\<close> flag, so they work on code units as well.
\<close>

type_synonym code_unit = "16 word"
type_synonym jsstring = "code_unit list"

definition js :: "string \<Rightarrow> jsstring" where
  "js s = map (\<lambda>c. of_nat (of_char c)) s"

subsection \<open>Constants\<close>

text \<open>\<^verbatim>\<open>const RESET_INTERVAL = 1000 * 60; // 1 hour\<close>\<close>

definition RESET_INTERVAL :: int where
  "RESET_INTERVAL = 1000 * 60"

text \<open>\<^verbatim>\<open>const IP_HASH_SALT = 'C0AayiNoVJJPzhm58v4W';\<close>\<close>

definition IP_HASH_SALT :: jsstring where
  "IP_HASH_SALT = js ''C0AayiNoVJJPzhm58v4W''"

text \<open>\<^verbatim>\<open>const TRACKING_DURATION = 1000 * 60; // 1 hour\<close>\<close>

definition TRACKING_DURATION :: int where
  "TRACKING_DURATION = 1000 * 60"

text \<open>One hour in milliseconds, the value that the comments on both constants name.\<close>

definition ONE_HOUR_MS :: int where
  "ONE_HOUR_MS = 3600000"

text \<open>\<^verbatim>\<open>const downloadEventCodes = ['s3:ObjectAccessed:Get'];\<close>\<close>

definition downloadEventCodes :: "jsstring list" where
  "downloadEventCodes = [js ''s3:ObjectAccessed:Get'']"

subsection \<open>The two regular expressions\<close>

text \<open>The character class \<^verbatim>\<open>[a-zA-Z0-9\.\-_]\<close>.\<close>

definition slugChar :: "code_unit \<Rightarrow> bool" where
  "slugChar u \<longleftrightarrow>
     (0x61 \<le> u \<and> u \<le> 0x7A) \<or> (0x41 \<le> u \<and> u \<le> 0x5A) \<or> (0x30 \<le> u \<and> u \<le> 0x39)
     \<or> u = 0x2E \<or> u = 0x2D \<or> u = 0x5F"

text \<open>
  The line terminators of ECMAScript (LF, CR, U+2028, U+2029): without the
  \<^verbatim>\<open>s\<close> flag the pattern \<^verbatim>\<open>.\<close> matches every code unit but these.
\<close>

definition lineTerminator :: "code_unit \<Rightarrow> bool" where
  "lineTerminator u \<longleftrightarrow> u = 0x0A \<or> u = 0x0D \<or> u = 0x2028 \<or> u = 0x2029"

definition slash :: code_unit where
  "slash = 0x2F"

text \<open>A literal at the current position: the rest of the input behind it, if it is there.\<close>

fun literal :: "jsstring \<Rightarrow> jsstring \<Rightarrow> jsstring option" where
  "literal [] s = Some s"
| "literal (p # ps) [] = None"
| "literal (p # ps) (c # cs) = (if p = c then literal ps cs else None)"

text \<open>
  The group \<^verbatim>\<open>([a-zA-Z0-9\.\-_]{1,64})\<close> followed by \<^verbatim>\<open>\/\<close>. The quantifier is
  greedy: it takes the longest run of class characters, at most 64, and gives characters
  back one by one when the slash does not follow. A character given back is in the class,
  so it is no slash, and giving back never helps: the match succeeds exactly when the
  whole run has 1 to 64 characters and a slash comes next. The result is the captured
  group and the input behind the slash.
\<close>

definition slugGroup :: "jsstring \<Rightarrow> (jsstring \<times> jsstring) option" where
  "slugGroup s =
     (let run = takeWhile slugChar s; rest = dropWhile slugChar s
      in if 1 \<le> length run \<and> length run \<le> 64
         then (case rest of
                 [] \<Rightarrow> None
               | c # cs \<Rightarrow> if c = slash then Some (run, cs) else None)
         else None)"

text \<open>
  The group \<^verbatim>\<open>(.+)\<close> followed by \<^verbatim>\<open>$\<close> (no \<^verbatim>\<open>m\<close> flag: the end of the input
  only): at least one code unit, none of them a line terminator, up to the end.
\<close>

definition restGroup :: "jsstring \<Rightarrow> jsstring option" where
  "restGroup s = (if s \<noteq> [] \<and> list_all (\<lambda>u. \<not> lineTerminator u) s then Some s else None)"

text \<open>
  \<^verbatim>\<open>const modVersionRegex = /^mods\/([a-zA-Z0-9\.\-_]{1,64})\/([a-zA-Z0-9\.\-_]{1,64})\/(.+)$/;\<close>
  The result of \<^verbatim>\<open>key.match(modVersionRegex)\<close>: the groups 1, 2 and 3, or
  \<open>None\<close> for \<^verbatim>\<open>null\<close>.
\<close>

definition modVersionRegex :: "jsstring \<Rightarrow> (jsstring \<times> jsstring \<times> jsstring) option" where
  "modVersionRegex key =
     (case literal (js ''mods/'') key of
        None \<Rightarrow> None
      | Some s1 \<Rightarrow>
          (case slugGroup s1 of
             None \<Rightarrow> None
           | Some (g1, s2) \<Rightarrow>
               (case slugGroup s2 of
                  None \<Rightarrow> None
                | Some (g2, s3) \<Rightarrow>
                    (case restGroup s3 of
                       None \<Rightarrow> None
                     | Some g3 \<Rightarrow> Some (g1, g2, g3)))))"

text \<open>
  \<^verbatim>\<open>const launcherVersionRegex = /^launcher\/([a-zA-Z0-9\.\-_]{1,64})\/(.+)$/;\<close>
\<close>

definition launcherVersionRegex :: "jsstring \<Rightarrow> (jsstring \<times> jsstring) option" where
  "launcherVersionRegex key =
     (case literal (js ''launcher/'') key of
        None \<Rightarrow> None
      | Some s1 \<Rightarrow>
          (case slugGroup s1 of
             None \<Rightarrow> None
           | Some (g1, s2) \<Rightarrow>
               (case restGroup s2 of
                  None \<Rightarrow> None
                | Some g2 \<Rightarrow> Some (g1, g2))))"

subsection \<open>Classification\<close>

text \<open>
  The typed download target of a key. \<^verbatim>\<open>countDownload\<close> tries the mod version
  pattern first, then the launcher version pattern, and reports the key otherwise;
  \<open>classify\<close> names the branch it takes.
\<close>

datatype DownloadTarget =
    ModVersionTarget jsstring jsstring
  | LauncherVersionTarget jsstring
  | Unrecognized

definition classify :: "jsstring \<Rightarrow> DownloadTarget" where
  "classify k =
     (case modVersionRegex k of
        Some (modSlug, versionSlug, fileName) \<Rightarrow> ModVersionTarget modSlug versionSlug
      | None \<Rightarrow>
          (case launcherVersionRegex k of
             Some (versionSlug, fileName) \<Rightarrow> LauncherVersionTarget versionSlug
           | None \<Rightarrow> Unrecognized))"

text \<open>The shapes of keys, written as strings.\<close>

definition isSlug :: "jsstring \<Rightarrow> bool" where
  "isSlug s \<longleftrightarrow> 1 \<le> length s \<and> length s \<le> 64 \<and> list_all slugChar s"

definition isFileName :: "jsstring \<Rightarrow> bool" where
  "isFileName f \<longleftrightarrow> f \<noteq> [] \<and> list_all (\<lambda>u. \<not> lineTerminator u) f"

definition modVersionKey :: "jsstring \<Rightarrow> jsstring \<Rightarrow> jsstring \<Rightarrow> jsstring" where
  "modVersionKey modSlug versionSlug fileName =
     js ''mods/'' @ modSlug @ [slash] @ versionSlug @ [slash] @ fileName"

definition launcherKey :: "jsstring \<Rightarrow> jsstring \<Rightarrow> jsstring" where
  "launcherKey versionSlug fileName = js ''launcher/'' @ versionSlug @ [slash] @ fileName"

subsection \<open>Data model\<close>

text \<open>
  \<^verbatim>\<open>interface ObjectAccessedGetNotification\<close>: \<open>key\<close> is
  \<^verbatim>\<open>notif.s3.object.key\<close> and \<open>host\<close> is \<^verbatim>\<open>notif.source.host\<close>.
\<close>

record ObjectAccessedGetNotification =
  key :: jsstring
  host :: jsstring

text \<open>
  Modelled from the spec: the entities \<^verbatim>\<open>DownloadTracker\<close>, \<^verbatim>\<open>ModVersion\<close>
  and \<^verbatim>\<open>LauncherVersion\<close> are imported by the service and not part of the sources
  at hand. A tracker row is \<open>{path, ipHash, expiresAt}\<close>, unique on (path, ipHash), so the
  tracker table is a map from that pair to \<open>expiresAt\<close> (milliseconds since the epoch, as
  \<^verbatim>\<open>Date.getTime()\<close> gives them). The catalog rows carry the columns that the
  service reads and writes; a mod version is identified by (modId, version), a launcher
  version by its version.
\<close>

type_synonym tracker_table = "(jsstring \<times> jsstring) \<rightharpoonup> int"

record ModVersion =
  modId :: jsstring
  version :: jsstring
  downloadCount :: int

record LauncherVersion =
  launcherVersion :: jsstring
  launcherDownloadCount :: int

text \<open>The calls to the persistence layer, each of which may reject.\<close>

datatype storage_op =
    TrackerFindOne
  | TrackerSave
  | TrackerFind
  | ModVersionFindBy
  | ModVersionSave
  | LauncherVersionFindBy
  | LauncherVersionSave

datatype error =
    StorageError storage_op
  | InvalidEndpointError

type_synonym faults = "storage_op \<Rightarrow> bool"

definition noFaults :: faults where
  "noFaults = (\<lambda>op. False)"

text \<open>The lines that the service writes with \<^verbatim>\<open>console.log\<close> and \<^verbatim>\<open>console.error\<close>.\<close>

datatype log_entry =
    MissingStorageClientConfig
  | NoStorageClientConfigured
  | RemovingExpiredFailed error
  | UnknownUploadType jsstring
  | NonexistentModVersion jsstring jsstring
  | CouldNotUpdateModVersion jsstring jsstring error
  | NonexistentLauncherVersion jsstring
  | CouldNotUpdateLauncherVersion jsstring error

text \<open>
  The state that the service acts on: the three tables, the console, and the rejections
  of promises that nobody awaits (\<^verbatim>\<open>DownloadTracker.save(tracker)\<close> on an existing
  tracker, the \<^verbatim>\<open>save\<close> calls inside \<^verbatim>\<open>forEach\<close>).
\<close>

record world =
  trackers :: tracker_table
  modVersions :: "ModVersion list"
  launcherVersions :: "LauncherVersion list"
  console :: "log_entry list"
  unhandled :: "error list"

definition logLine :: "log_entry \<Rightarrow> world \<Rightarrow> world" where
  "logLine e w = w\<lparr>console := console w @ [e]\<rparr>"

subsection \<open>The persistence layer\<close>

text \<open>\<^verbatim>\<open>ModVersion.findBy({ modId: modSlug, version: versionSlug })\<close>\<close>

definition findModVersionsBy :: "jsstring \<Rightarrow> jsstring \<Rightarrow> ModVersion list \<Rightarrow> ModVersion list" where
  "findModVersionsBy modSlug versionSlug table =
     filter (\<lambda>r. modId r = modSlug \<and> version r = versionSlug) table"

text \<open>\<^verbatim>\<open>LauncherVersion.findBy({ version: versionSlug })\<close>\<close>

definition findLauncherVersionsBy :: "jsstring \<Rightarrow> LauncherVersion list \<Rightarrow> LauncherVersion list" where
  "findLauncherVersionsBy versionSlug table =
     filter (\<lambda>r. launcherVersion r = versionSlug) table"

text \<open>\<^verbatim>\<open>save\<close> writes the row over the rows with its identity, or inserts it.\<close>

definition sameModVersion :: "ModVersion \<Rightarrow> ModVersion \<Rightarrow> bool" where
  "sameModVersion r x \<longleftrightarrow> modId x = modId r \<and> version x = version r"

definition saveModVersionRow :: "ModVersion \<Rightarrow> ModVersion list \<Rightarrow> ModVersion list" where
  "saveModVersionRow r table =
     (if list_ex (sameModVersion r) table
      then map (\<lambda>x. if sameModVersion r x then r else x) table
      else table @ [r])"

definition sameLauncherVersion :: "LauncherVersion \<Rightarrow> LauncherVersion \<Rightarrow> bool" where
  "sameLauncherVersion r x \<longleftrightarrow> launcherVersion x = launcherVersion r"

definition saveLauncherVersionRow ::
  "LauncherVersion \<Rightarrow> LauncherVersion list \<Rightarrow> LauncherVersion list" where
  "saveLauncherVersionRow r table =
     (if list_ex (sameLauncherVersion r) table
      then map (\<lambda>x. if sameLauncherVersion r x then r else x) table
      else table @ [r])"

text \<open>
  \<^verbatim>\<open>ModVersion.save(modVersion)\<close> inside \<^verbatim>\<open>forEach\<close>: the promise is not awaited,
  so a rejection is caught by nobody.
\<close>

definition saveModVersion :: "faults \<Rightarrow> ModVersion \<Rightarrow> world \<Rightarrow> world" where
  "saveModVersion faults r w =
     (if faults ModVersionSave
      then w\<lparr>unhandled := unhandled w @ [StorageError ModVersionSave]\<rparr>
      else w\<lparr>modVersions := saveModVersionRow r (modVersions w)\<rparr>)"

definition saveLauncherVersion :: "faults \<Rightarrow> LauncherVersion \<Rightarrow> world \<Rightarrow> world" where
  "saveLauncherVersion faults r w =
     (if faults LauncherVersionSave
      then w\<lparr>unhandled := unhandled w @ [StorageError LauncherVersionSave]\<rparr>
      else w\<lparr>launcherVersions := saveLauncherVersionRow r (launcherVersions w)\<rparr>)"

text \<open>
  \<^verbatim>\<open>MoreThan(value)\<close> of the query builder selects the rows whose column is greater
  than the value; \<^verbatim>\<open>DownloadTracker.find({ where: { expiresAt: cond } })\<close> returns the
  rows that satisfy the condition.
\<close>

definition MoreThan :: "int \<Rightarrow> int \<Rightarrow> bool" where
  "MoreThan v column \<longleftrightarrow> v < column"

definition findTrackers :: "(int \<Rightarrow> bool) \<Rightarrow> tracker_table \<Rightarrow> tracker_table" where
  "findTrackers cond table =
     (\<lambda>k. case table k of None \<Rightarrow> None | Some e \<Rightarrow> if cond e then Some e else None)"

subsection \<open>Counting a download\<close>

text \<open>
  \<^verbatim>\<open>countModVersionDownload\<close>. The array that \<^verbatim>\<open>findBy\<close> resolves to is truthy, so
  the guard \<^verbatim>\<open>!modVersions || modVersions.length <= 0\<close> is the test of its length; the
  increments are inside the guarded block, behind the error line.
\<close>

definition countModVersionDownload :: "faults \<Rightarrow> jsstring \<Rightarrow> jsstring \<Rightarrow> world \<Rightarrow> world" where
  "countModVersionDownload faults modSlug versionSlug w =
     (if faults ModVersionFindBy
      then logLine (CouldNotUpdateModVersion modSlug versionSlug (StorageError ModVersionFindBy)) w
      else
        (let found = findModVersionsBy modSlug versionSlug (modVersions w)
         in if length found \<le> 0
            then foldl (\<lambda>w' modVersion.
                          saveModVersion faults
                            (modVersion\<lparr>downloadCount := downloadCount modVersion + 1\<rparr>) w')
                   (logLine (NonexistentModVersion modSlug versionSlug) w) found
            else w))"

text \<open>\<^verbatim>\<open>countLauncherVersionDownload\<close>, of the same build.\<close>

definition countLauncherVersionDownload :: "faults \<Rightarrow> jsstring \<Rightarrow> world \<Rightarrow> world" where
  "countLauncherVersionDownload faults versionSlug w =
     (if faults LauncherVersionFindBy
      then logLine (CouldNotUpdateLauncherVersion versionSlug (StorageError LauncherVersionFindBy)) w
      else
        (let found = findLauncherVersionsBy versionSlug (launcherVersions w)
         in if length found \<le> 0
            then foldl (\<lambda>w' launcherVersion.
                          saveLauncherVersion faults
                            (launcherVersion\<lparr>launcherDownloadCount :=
                               launcherDownloadCount launcherVersion + 1\<rparr>) w')
                   (logLine (NonexistentLauncherVersion versionSlug) w) found
            else w))"

text \<open>\<^verbatim>\<open>countDownload\<close>\<close>

definition countDownload :: "faults \<Rightarrow> ObjectAccessedGetNotification \<Rightarrow> world \<Rightarrow> world" where
  "countDownload faults notif w =
     (case modVersionRegex (key notif) of
        Some (modSlug, versionSlug, fileName) \<Rightarrow>
          countModVersionDownload faults modSlug versionSlug w
      | None \<Rightarrow>
          (case launcherVersionRegex (key notif) of
             Some (versionSlug, fileName) \<Rightarrow> countLauncherVersionDownload faults versionSlug w
           | None \<Rightarrow> logLine (UnknownUploadType (key notif)) w))"

subsection \<open>Processing a notification\<close>

text \<open>
  \<^verbatim>\<open>processNotification\<close>. The parameters are what the method takes from its
  surroundings: \<open>md5hex\<close> is \<^verbatim>\<open>createHash('md5')...digest('hex')\<close> of the updates put
  together, \<open>faults\<close> says which calls of the persistence layer reject, \<open>now\<close> is the
  clock read for \<^verbatim>\<open>newExpiry\<close> and \<open>now'\<close> the clock read again for
  \<^verbatim>\<open>expired\<close>. The method has no \<^verbatim>\<open>try\<close>: a rejection of an awaited call
  rejects the promise that it returns, which is the first component of the result
  (\<open>None\<close> when the promise resolves).
\<close>

definition trackerKey ::
  "(jsstring \<Rightarrow> jsstring) \<Rightarrow> ObjectAccessedGetNotification \<Rightarrow> jsstring \<times> jsstring" where
  "trackerKey md5hex notif = (key notif, md5hex (IP_HASH_SALT @ host notif))"

definition processNotification ::
  "(jsstring \<Rightarrow> jsstring) \<Rightarrow> faults \<Rightarrow> int \<Rightarrow> int \<Rightarrow> ObjectAccessedGetNotification \<Rightarrow> world
     \<Rightarrow> error option \<times> world" where
  "processNotification md5hex faults now now' notif w =
     (let k = trackerKey md5hex notif;
          newExpiry = now + TRACKING_DURATION
      in if faults TrackerFindOne then (Some (StorageError TrackerFindOne), w)
         else
           (case trackers w k of
              None \<Rightarrow>
                if faults TrackerSave then (Some (StorageError TrackerSave), w)
                else (None, countDownload faults notif (w\<lparr>trackers := (trackers w)(k \<mapsto> newExpiry)\<rparr>))
            | Some expiresAt \<Rightarrow>
                (let expired = expiresAt < now';
                     w1 = (if faults TrackerSave
                           then w\<lparr>unhandled := unhandled w @ [StorageError TrackerSave]\<rparr>
                           else w\<lparr>trackers := (trackers w)(k \<mapsto> newExpiry)\<rparr>)
                 in (None, if expired then countDownload faults notif w1 else w1))))"

subsection \<open>The sweep\<close>

text \<open>
  \<^verbatim>\<open>removeExpiredTrackers\<close> awaits one query,
  \<^verbatim>\<open>DownloadTracker.find({ where: { expiresAt: MoreThan(new Date()) } })\<close>, and drops
  its result; a rejection is caught and logged. \<open>sweepQuery\<close> is the result of that query.
\<close>

definition sweepQuery :: "int \<Rightarrow> world \<Rightarrow> tracker_table" where
  "sweepQuery now w = findTrackers (MoreThan now) (trackers w)"

definition removeExpiredTrackers :: "faults \<Rightarrow> int \<Rightarrow> world \<Rightarrow> world" where
  "removeExpiredTrackers faults now w =
     (if faults TrackerFind
      then logLine (RemovingExpiredFailed (StorageError TrackerFind)) w
      else w)"

subsection \<open>Construction and start\<close>

text \<open>
  Modelled from the spec: the type \<^verbatim>\<open>Cfg\<close> is imported and not part of the sources at
  hand; \<open>cfg.storage\<close> holds the access key, the secret key, the endpoint and the name
  of the public bucket. An absent value is \<open>None\<close>; in a condition an absent value and
  the empty string are false.
\<close>

record StorageCfg =
  accessKey :: "jsstring option"
  secretKey :: "jsstring option"
  endPoint :: "jsstring option"
  publicBucket :: jsstring

definition truthy :: "jsstring option \<Rightarrow> bool" where
  "truthy v = (case v of None \<Rightarrow> False | Some s \<Rightarrow> s \<noteq> [])"

text \<open>The options handed to \<^verbatim>\<open>new Client(...)\<close>.\<close>

record Client =
  clientAccessKey :: "jsstring option"
  clientSecretKey :: "jsstring option"
  clientEndPoint :: "jsstring option"

text \<open>\<^verbatim>\<open>client.listenBucketNotification(bucket, prefix, suffix, events)\<close>\<close>

record Subscription =
  bucketName :: jsstring
  prefix :: jsstring
  suffix :: jsstring
  events :: "jsstring list"

record DownloadCounterService =
  cfg :: StorageCfg
  client :: "Client option"
  modNotificationEmitter :: "Subscription option"
  removalTask :: "int option"

text \<open>
  \<^verbatim>\<open>new Client(options)\<close> of the storage library checks the endpoint before anything
  else and throws \<^verbatim>\<open>InvalidEndpointError\<close> when it is absent or empty.
\<close>

definition newClient :: "Client \<Rightarrow> error + Client" where
  "newClient opts = (if truthy (clientEndPoint opts) then Inr opts else Inl InvalidEndpointError)"

text \<open>
  The constructor, with the lines it logs. It has no \<^verbatim>\<open>try\<close>: what
  \<^verbatim>\<open>new Client\<close> throws, the constructor throws (\<open>Inl\<close>).
\<close>

definition newDownloadCounterService ::
  "StorageCfg \<Rightarrow> error + (DownloadCounterService \<times> log_entry list)" where
  "newDownloadCounterService c =
     (if truthy (accessKey c) \<and> truthy (secretKey c) \<and> \<not> truthy (endPoint c)
      then (case newClient \<lparr>clientAccessKey = accessKey c, clientSecretKey = secretKey c,
                              clientEndPoint = endPoint c\<rparr> of
              Inl e \<Rightarrow> Inl e
            | Inr cl \<Rightarrow>
                Inr (\<lparr>cfg = c, client = Some cl, modNotificationEmitter = None,
                       removalTask = None\<rparr>, []))
      else Inr (\<lparr>cfg = c, client = None, modNotificationEmitter = None, removalTask = None\<rparr>,
                [MissingStorageClientConfig]))"

text \<open>
  \<^verbatim>\<open>startListening\<close>: \<open>removalTask\<close> holds the period of the interval timer that
  runs \<^verbatim>\<open>removeExpiredTrackers\<close>.
\<close>

definition startListening :: "DownloadCounterService \<Rightarrow> DownloadCounterService \<times> log_entry list" where
  "startListening s =
     (case client s of
        None \<Rightarrow> (s, [NoStorageClientConfigured])
      | Some c \<Rightarrow>
          (s\<lparr>modNotificationEmitter :=
                Some \<lparr>bucketName = publicBucket (cfg s), prefix = [], suffix = [],
                      events = downloadEventCodes\<rparr>,
              removalTask := Some RESET_INTERVAL\<rparr>, []))"

subsection \<open>Derived notions and scenarios\<close>

text \<open>
  The world after the tracker of a notification has been written with the new expiry.
\<close>

definition refreshTracker ::
  "(jsstring \<Rightarrow> jsstring) \<Rightarrow> int \<Rightarrow> ObjectAccessedGetNotification \<Rightarrow> world \<Rightarrow> world" where
  "refreshTracker md5hex now notif w =
     w\<lparr>trackers := (trackers w)(trackerKey md5hex notif \<mapsto> now + TRACKING_DURATION)\<rparr>"

text \<open>
  The inputs of the scenarios: an empty world, a catalog with mod version
  \<open>super-mod@1.2.0\<close> at count 0, notifications from host \<open>1.2.3.4\<close>, a key whose file
  name holds a line feed, a complete storage configuration, a world with one tracker
  that expires at 1000, a world with one elapsed and one running tracker, and a
  persistence layer whose \<^verbatim>\<open>DownloadTracker.findOne\<close> rejects.
\<close>

definition emptyWorld :: world where
  "emptyWorld = \<lparr>trackers = Map.empty, modVersions = [], launcherVersions = [], console = [],
     unhandled = []\<rparr>"

definition superModVersion :: ModVersion where
  "superModVersion = \<lparr>modId = js ''super-mod'', version = js ''1.2.0'', downloadCount = 0\<rparr>"

definition superModWorld :: world where
  "superModWorld = emptyWorld\<lparr>modVersions := [superModVersion]\<rparr>"

definition superModNotif :: ObjectAccessedGetNotification where
  "superModNotif = \<lparr>key = js ''mods/super-mod/1.2.0/file.zip'', host = js ''1.2.3.4''\<rparr>"

definition randomNotif :: ObjectAccessedGetNotification where
  "randomNotif = \<lparr>key = js ''random/unrelated/path'', host = js ''1.2.3.4''\<rparr>"

definition newlineKey :: jsstring where
  "newlineKey = modVersionKey (js ''a'') (js ''b'') [0x78, 0x0A, 0x79]"

definition fullCfg :: StorageCfg where
  "fullCfg = \<lparr>accessKey = Some (js ''access''), secretKey = Some (js ''secret''),
     endPoint = Some (js ''storage.example.org''), publicBucket = js ''public''\<rparr>"


definition sweepWorld :: world where
  "sweepWorld = emptyWorld\<lparr>trackers :=
     [(js ''mods/a/1/f'', js ''h1'') \<mapsto> 1000, (js ''mods/b/1/f'', js ''h2'') \<mapsto> 5000]\<rparr>"

definition findOneFails :: faults where
  "findOneFails = (\<lambda>op. op = TrackerFindOne)"

section \<open>Properties\<close>

subsection \<open>The regular expressions and the classification\<close>

lemma js_Nil: "js [] = []"
  by (simp add: js_def)

lemma js_Cons: "js (c # cs) = of_nat (of_char c) # js cs"
  by (simp add: js_def)

text \<open>The facts that evaluate a pattern on a key that is written out.\<close>

lemmas regex_eval = modVersionRegex_def launcherVersionRegex_def slugGroup_def restGroup_def
  slugChar_def lineTerminator_def slash_def js_Nil js_Cons

lemma slugChar_not_slash: "slugChar u \<Longrightarrow> u \<noteq> slash"
  by (auto simp: slugChar_def slash_def)

lemma literal_Some_iff: "literal p s = Some r \<longleftrightarrow> s = p @ r"
  by (induction p s rule: literal.induct) auto

lemma slugGroup_Some_iff: "slugGroup s = Some (g, r) \<longleftrightarrow> isSlug g \<and> s = g @ slash # r"
proof
  assume h: "slugGroup s = Some (g, r)"
  then have run: "takeWhile slugChar s = g" and rest: "dropWhile slugChar s = slash # r"
    and len: "1 \<le> length g" "length g \<le> 64"
    by (auto simp: slugGroup_def Let_def split: if_splits list.splits)
  have "list_all slugChar (takeWhile slugChar s)"
    by (simp add: list_all_iff) (meson set_takeWhileD)
  with run len have "isSlug g"
    by (simp add: isSlug_def)
  moreover have "s = g @ slash # r"
    using takeWhile_dropWhile_id [of slugChar s] run rest by simp
  ultimately show "isSlug g \<and> s = g @ slash # r" ..
next
  assume h: "isSlug g \<and> s = g @ slash # r"
  then have all: "\<forall>x\<in>set g. slugChar x" and len: "1 \<le> length g" "length g \<le> 64"
    by (simp_all add: isSlug_def list_all_iff)
  have ns: "\<not> slugChar slash"
    using slugChar_not_slash by blast
  from all ns have "takeWhile slugChar (g @ slash # r) = g"
    by simp
  moreover from all ns have "dropWhile slugChar (g @ slash # r) = slash # r"
    by simp
  ultimately show "slugGroup s = Some (g, r)"
    using h len by (simp add: slugGroup_def)
qed

lemma restGroup_Some_iff: "restGroup s = Some g \<longleftrightarrow> isFileName g \<and> s = g"
  by (auto simp: restGroup_def isFileName_def)

lemma literal_append: "literal p (p @ r) = Some r"
  by (simp add: literal_Some_iff)

lemma slugGroup_append: "isSlug g \<Longrightarrow> slugGroup (g @ slash # r) = Some (g, r)"
  by (simp add: slugGroup_Some_iff)

lemma restGroup_fileName: "isFileName f \<Longrightarrow> restGroup f = Some f"
  by (simp add: restGroup_Some_iff)

lemma modVersionRegex_Some_iff:
  "modVersionRegex k = Some (a, b, f) \<longleftrightarrow>
     isSlug a \<and> isSlug b \<and> isFileName f \<and> k = modVersionKey a b f"
proof
  assume "modVersionRegex k = Some (a, b, f)"
  then obtain s1 s2 s3 where "literal (js ''mods/'') k = Some s1" "slugGroup s1 = Some (a, s2)"
    "slugGroup s2 = Some (b, s3)" "restGroup s3 = Some f"
    by (auto simp: modVersionRegex_def split: option.splits)
  then show "isSlug a \<and> isSlug b \<and> isFileName f \<and> k = modVersionKey a b f"
    by (simp add: literal_Some_iff slugGroup_Some_iff restGroup_Some_iff modVersionKey_def)
next
  assume "isSlug a \<and> isSlug b \<and> isFileName f \<and> k = modVersionKey a b f"
  then show "modVersionRegex k = Some (a, b, f)"
    by (simp add: modVersionRegex_def modVersionKey_def literal_append slugGroup_append
        restGroup_fileName)
qed

lemma launcherVersionRegex_Some_iff:
  "launcherVersionRegex k = Some (v, f) \<longleftrightarrow> isSlug v \<and> isFileName f \<and> k = launcherKey v f"
proof
  assume "launcherVersionRegex k = Some (v, f)"
  then obtain s1 s2 where "literal (js ''launcher/'') k = Some s1" "slugGroup s1 = Some (v, s2)"
    "restGroup s2 = Some f"
    by (auto simp: launcherVersionRegex_def split: option.splits)
  then show "isSlug v \<and> isFileName f \<and> k = launcherKey v f"
    by (simp add: literal_Some_iff slugGroup_Some_iff restGroup_Some_iff launcherKey_def)
next
  assume "isSlug v \<and> isFileName f \<and> k = launcherKey v f"
  then show "launcherVersionRegex k = Some (v, f)"
    by (simp add: launcherVersionRegex_def launcherKey_def literal_append slugGroup_append
        restGroup_fileName)
qed

lemma modVersionRegex_launcherKey: "modVersionRegex (launcherKey v f) = None"
  by (simp add: modVersionRegex_def launcherKey_def js_Nil js_Cons)

lemma classify_ModVersionTarget_iff:
  "classify k = ModVersionTarget a b \<longleftrightarrow>
     (\<exists>f. isSlug a \<and> isSlug b \<and> isFileName f \<and> k = modVersionKey a b f)"
proof (cases "modVersionRegex k")
  case None
  then have "\<And>f. \<not> (isSlug a \<and> isSlug b \<and> isFileName f \<and> k = modVersionKey a b f)"
    using modVersionRegex_Some_iff [of k a b] by simp
  with None show ?thesis
    by (auto simp: classify_def split: option.splits)
next
  case (Some t)
  obtain a' b' f' where t: "t = (a', b', f')"
    by (cases t)
  show ?thesis
    using Some t modVersionRegex_Some_iff [of k a' b' f'] modVersionRegex_Some_iff [of k a b]
    by (auto simp: classify_def)
qed

lemma classify_LauncherVersionTarget_iff:
  "classify k = LauncherVersionTarget v \<longleftrightarrow> (\<exists>f. isSlug v \<and> isFileName f \<and> k = launcherKey v f)"
proof
  assume h: "classify k = LauncherVersionTarget v"
  then obtain f where "launcherVersionRegex k = Some (v, f)"
    by (auto simp: classify_def split: option.splits)
  then show "\<exists>f. isSlug v \<and> isFileName f \<and> k = launcherKey v f"
    using launcherVersionRegex_Some_iff by blast
next
  assume "\<exists>f. isSlug v \<and> isFileName f \<and> k = launcherKey v f"
  then obtain f where f: "isSlug v" "isFileName f" "k = launcherKey v f"
    by blast
  then have "launcherVersionRegex k = Some (v, f)"
    by (simp add: launcherVersionRegex_Some_iff)
  moreover have "modVersionRegex k = None"
    using f by (simp add: modVersionRegex_launcherKey)
  ultimately show "classify k = LauncherVersionTarget v"
    by (simp add: classify_def)
qed

lemma classify_Unrecognized_iff:
  "classify k = Unrecognized \<longleftrightarrow> modVersionRegex k = None \<and> launcherVersionRegex k = None"
  by (auto simp: classify_def split: option.splits)

lemma modVersionRegex_None_iff:
  "modVersionRegex k = None \<longleftrightarrow>
     \<not> (\<exists>a b f. isSlug a \<and> isSlug b \<and> isFileName f \<and> k = modVersionKey a b f)"
proof -
  have "modVersionRegex k = None \<longleftrightarrow> \<not> (\<exists>a b f. modVersionRegex k = Some (a, b, f))"
    by (cases "modVersionRegex k") auto
  then show ?thesis
    by (simp only: modVersionRegex_Some_iff)
qed

lemma launcherVersionRegex_None_iff:
  "launcherVersionRegex k = None \<longleftrightarrow> \<not> (\<exists>v f. isSlug v \<and> isFileName f \<and> k = launcherKey v f)"
proof -
  have "launcherVersionRegex k = None \<longleftrightarrow> \<not> (\<exists>v f. launcherVersionRegex k = Some (v, f))"
    by (cases "launcherVersionRegex k") auto
  then show ?thesis
    by (simp only: launcherVersionRegex_Some_iff)
qed

text \<open>
  Claim C4, as amended. The classification is a function of the key alone. A key is
  classified as the mod version target with slugs \<open>a\<close> and \<open>b\<close> exactly when it is
  \<open>mods/a/b/f\<close> with both slugs of 1 to 64 characters from the ASCII letters, the
  digits, dot, hyphen and underscore, and a file name \<open>f\<close> that is not empty and holds
  no line terminator; as the launcher version target with slug \<open>v\<close> exactly when it is
  \<open>launcher/v/f\<close> under the same conditions; and as unrecognized exactly when it has
  neither shape.
\<close>

theorem classify_shapes:
  "(classify k = ModVersionTarget a b \<longleftrightarrow>
      (\<exists>f. isSlug a \<and> isSlug b \<and> isFileName f \<and> k = modVersionKey a b f)) \<and>
   (classify k = LauncherVersionTarget v \<longleftrightarrow>
      (\<exists>f. isSlug v \<and> isFileName f \<and> k = launcherKey v f)) \<and>
   (classify k = Unrecognized \<longleftrightarrow>
      \<not> (\<exists>a b f. isSlug a \<and> isSlug b \<and> isFileName f \<and> k = modVersionKey a b f) \<and>
      \<not> (\<exists>v f. isSlug v \<and> isFileName f \<and> k = launcherKey v f))"
  using classify_ModVersionTarget_iff [of k a b] classify_LauncherVersionTarget_iff [of k v]
    classify_Unrecognized_iff [of k] modVersionRegex_None_iff [of k]
    launcherVersionRegex_None_iff [of k]
  by simp

text \<open>
  Claim C4 is stated for every file name; on a file name with a line feed in it
  the key \<open>mods/a/b/x<LF>y\<close>, with slugs \<open>a\<close> and \<open>b\<close>, is unrecognized.
\<close>

theorem classify_line_terminator_counterexample:
  "isSlug (js ''a'') \<and> isSlug (js ''b'') \<and> [0x78, 0x0A, 0x79] \<noteq> ([] :: jsstring) \<and>
   newlineKey = modVersionKey (js ''a'') (js ''b'') [0x78, 0x0A, 0x79] \<and>
   classify newlineKey = Unrecognized"
  by (simp add: newlineKey_def modVersionKey_def classify_def isSlug_def regex_eval)

text \<open>Both patterns at the keys of the scenarios.\<close>

theorem classify_shapes_witness:
  "classify (js ''mods/super-mod/1.2.0/file.zip'') = ModVersionTarget (js ''super-mod'') (js ''1.2.0'') \<and>
   classify (js ''launcher/3.4.5/setup.exe'') = LauncherVersionTarget (js ''3.4.5'') \<and>
   classify (js ''random/unrelated/path'') = Unrecognized"
proof -
  have m: "\<exists>f. isSlug (js ''super-mod'') \<and> isSlug (js ''1.2.0'') \<and> isFileName f \<and>
      js ''mods/super-mod/1.2.0/file.zip'' = modVersionKey (js ''super-mod'') (js ''1.2.0'') f"
    by (rule exI [of _ "js ''file.zip''"])
      (simp add: isSlug_def isFileName_def modVersionKey_def slugChar_def lineTerminator_def
        slash_def js_Nil js_Cons)
  have l: "\<exists>f. isSlug (js ''3.4.5'') \<and> isFileName f \<and>
      js ''launcher/3.4.5/setup.exe'' = launcherKey (js ''3.4.5'') f"
    by (rule exI [of _ "js ''setup.exe''"])
      (simp add: isSlug_def isFileName_def launcherKey_def slugChar_def lineTerminator_def
        slash_def js_Nil js_Cons)
  have u1: "\<not> (\<exists>a b f. isSlug a \<and> isSlug b \<and> isFileName f \<and>
      js ''random/unrelated/path'' = modVersionKey a b f)"
    by (simp add: modVersionKey_def js_Nil js_Cons)
  have u2: "\<not> (\<exists>v f. isSlug v \<and> isFileName f \<and> js ''random/unrelated/path'' = launcherKey v f)"
    by (simp add: launcherKey_def js_Nil js_Cons)
  from m have "classify (js ''mods/super-mod/1.2.0/file.zip'') =
      ModVersionTarget (js ''super-mod'') (js ''1.2.0'')"
    using classify_shapes [of "js ''mods/super-mod/1.2.0/file.zip''" "js ''super-mod''" "js ''1.2.0''"]
    by blast
  moreover from l have "classify (js ''launcher/3.4.5/setup.exe'') = LauncherVersionTarget (js ''3.4.5'')"
    using classify_shapes [of "js ''launcher/3.4.5/setup.exe''" _ _ "js ''3.4.5''"]
    by blast
  moreover from u1 u2 have "classify (js ''random/unrelated/path'') = Unrecognized"
    using classify_shapes [of "js ''random/unrelated/path''"]
    by blast
  ultimately show ?thesis
    by blast
qed

lemma superMod_match:
  "modVersionRegex (key superModNotif) = Some (js ''super-mod'', js ''1.2.0'', js ''file.zip'')"
  by (simp add: superModNotif_def regex_eval)

lemma random_classify: "classify (key randomNotif) = Unrecognized"
  by (simp add: randomNotif_def classify_def regex_eval)

subsection \<open>What counting changes\<close>

text \<open>
  The rows are incremented and saved inside the block that runs when \<^verbatim>\<open>findBy\<close>
  found nothing, so \<^verbatim>\<open>forEach\<close> has no row to visit: counting a download leaves
  every table as it was.
\<close>

lemma countModVersionDownload_tables:
  "trackers (countModVersionDownload faults m v w) = trackers w"
  "modVersions (countModVersionDownload faults m v w) = modVersions w"
  "launcherVersions (countModVersionDownload faults m v w) = launcherVersions w"
  "unhandled (countModVersionDownload faults m v w) = unhandled w"
  by (simp_all add: countModVersionDownload_def logLine_def Let_def)

lemma countLauncherVersionDownload_tables:
  "trackers (countLauncherVersionDownload faults v w) = trackers w"
  "modVersions (countLauncherVersionDownload faults v w) = modVersions w"
  "launcherVersions (countLauncherVersionDownload faults v w) = launcherVersions w"
  "unhandled (countLauncherVersionDownload faults v w) = unhandled w"
  by (simp_all add: countLauncherVersionDownload_def logLine_def Let_def)

lemma countDownload_tables:
  "trackers (countDownload faults notif w) = trackers w"
  "modVersions (countDownload faults notif w) = modVersions w"
  "launcherVersions (countDownload faults notif w) = launcherVersions w"
  "unhandled (countDownload faults notif w) = unhandled w"
  by (simp_all add: countDownload_def countModVersionDownload_tables
      countLauncherVersionDownload_tables logLine_def split: option.splits)

lemma countDownload_classify:
  "countDownload faults notif w =
     (case classify (key notif) of
        ModVersionTarget m v \<Rightarrow> countModVersionDownload faults m v w
      | LauncherVersionTarget v \<Rightarrow> countLauncherVersionDownload faults v w
      | Unrecognized \<Rightarrow> logLine (UnknownUploadType (key notif)) w)"
  by (simp add: countDownload_def classify_def split: option.splits)

lemma processNotification_tables:
  "modVersions (snd (processNotification md5hex faults now now' notif w)) = modVersions w"
  "launcherVersions (snd (processNotification md5hex faults now now' notif w)) = launcherVersions w"
  by (simp_all add: processNotification_def Let_def countDownload_tables split: option.splits)


lemma processNotification_noFaults:
  "processNotification md5hex noFaults now now' notif w =
     (None,
      if trackers w (trackerKey md5hex notif) = None \<or>
         (\<exists>e. trackers w (trackerKey md5hex notif) = Some e \<and> e < now')
      then countDownload noFaults notif (refreshTracker md5hex now notif w)
      else refreshTracker md5hex now notif w)"
  by (auto simp: processNotification_def noFaults_def refreshTracker_def Let_def split: option.splits)

subsection \<open>The first download of a mod version\<close>

text \<open>
  Claim C1, on the code. The catalog holds mod version \<open>super-mod@1.2.0\<close> with
  \<open>downloadCount\<close> 0, and no tracker exists. The key
  \<open>mods/super-mod/1.2.0/file.zip\<close> is classified as that mod version, \<open>findBy\<close>
  resolves it to the row, and after the notification has been processed the row's
  \<open>downloadCount\<close> is still 0: the counter updater leaves the world as it found it.
\<close>

theorem superMod_first_download_not_counted:
  "map downloadCount (modVersions superModWorld) = [0] \<and>
   classify (key superModNotif) = ModVersionTarget (js ''super-mod'') (js ''1.2.0'') \<and>
   findModVersionsBy (js ''super-mod'') (js ''1.2.0'') (modVersions superModWorld) = [superModVersion] \<and>
   trackers superModWorld (trackerKey md5hex superModNotif) = None \<and>
   map downloadCount
     (modVersions (snd (processNotification md5hex noFaults now now' superModNotif superModWorld))) = [0] \<and>
   countModVersionDownload noFaults (js ''super-mod'') (js ''1.2.0'') superModWorld = superModWorld"
  by (simp add: processNotification_tables classify_def superMod_match superModWorld_def
      emptyWorld_def superModVersion_def findModVersionsBy_def countModVersionDownload_def
      noFaults_def js_Nil js_Cons)

subsection \<open>Freshness at the boundary\<close>


subsection \<open>Keys of no known shape\<close>

text \<open>
  Claim C3, as amended. For a notification whose key matches neither pattern, and
  while the reads and writes of the tracker table do not fail: the handler's promise
  resolves, no catalog row changes, the tracker of (key, ipHash) is created or
  refreshed with \<open>expiresAt = now + TRACKING_DURATION\<close> all the same, and the key is
  logged exactly when the observation is fresh (no tracker, or one with
  \<open>expiresAt < now'\<close>).
\<close>

theorem unrecognized_key_effects:
  assumes "classify (key notif) = Unrecognized"
    and "\<not> faults TrackerFindOne" and "\<not> faults TrackerSave"
  shows "fst (processNotification md5hex faults now now' notif w) = None \<and>
    modVersions (snd (processNotification md5hex faults now now' notif w)) = modVersions w \<and>
    launcherVersions (snd (processNotification md5hex faults now now' notif w)) = launcherVersions w \<and>
    trackers (snd (processNotification md5hex faults now now' notif w)) =
      (trackers w)(trackerKey md5hex notif \<mapsto> now + TRACKING_DURATION) \<and>
    console (snd (processNotification md5hex faults now now' notif w)) =
      (if trackers w (trackerKey md5hex notif) = None \<or>
          (\<exists>expiresAt. trackers w (trackerKey md5hex notif) = Some expiresAt \<and> expiresAt < now')
       then console w @ [UnknownUploadType (key notif)]
       else console w)"
  using assms
  by (auto simp: processNotification_def Let_def countDownload_classify logLine_def
      split: option.splits)

text \<open>
  Claim C3 as it is stated fails: the key \<open>random/unrelated/path\<close> is unrecognized,
  no tracker exists before, and one exists afterwards.
\<close>

theorem unrecognized_key_tracked_counterexample:
  "classify (key randomNotif) = Unrecognized \<and>
   trackers emptyWorld (trackerKey id randomNotif) = None \<and>
   trackers (snd (processNotification id noFaults 1000 1000 randomNotif emptyWorld))
     (trackerKey id randomNotif) = Some 61000"
  by (simp add: random_classify processNotification_noFaults countDownload_tables)
    (simp add: emptyWorld_def refreshTracker_def TRACKING_DURATION_def)

text \<open>The amended claim at the key \<open>random/unrelated/path\<close> in the empty world.\<close>

theorem unrecognized_key_effects_witness:
  "classify (key randomNotif) = Unrecognized \<and> \<not> noFaults TrackerFindOne \<and> \<not> noFaults TrackerSave \<and>
   fst (processNotification id noFaults 1000 1000 randomNotif emptyWorld) = None \<and>
   modVersions (snd (processNotification id noFaults 1000 1000 randomNotif emptyWorld)) = [] \<and>
   launcherVersions (snd (processNotification id noFaults 1000 1000 randomNotif emptyWorld)) = [] \<and>
   trackers (snd (processNotification id noFaults 1000 1000 randomNotif emptyWorld)) =
     [trackerKey id randomNotif \<mapsto> 61000] \<and>
   console (snd (processNotification id noFaults 1000 1000 randomNotif emptyWorld)) =
     [UnknownUploadType (key randomNotif)]"
proof -
  have h: "classify (key randomNotif) = Unrecognized" "\<not> noFaults TrackerFindOne"
    "\<not> noFaults TrackerSave"
    by (simp_all add: random_classify noFaults_def)
  show ?thesis
    using h unrecognized_key_effects [OF h, of id 1000 1000 emptyWorld]
    by (simp add: emptyWorld_def TRACKING_DURATION_def)
qed

subsection \<open>The sweep\<close>

text \<open>
  Claim C5, on the code. At sweep time 2000 one tracker has elapsed (it expired at
  1000) and one is running (it expires at 5000). The query of the sweep selects the
  running tracker and not the elapsed one, and the sweep leaves the world as it was:
  the elapsed tracker is neither selected nor removed.
\<close>

theorem sweep_selects_unexpired:
  "trackers sweepWorld (js ''mods/a/1/f'', js ''h1'') = Some 1000 \<and>
   trackers sweepWorld (js ''mods/b/1/f'', js ''h2'') = Some 5000 \<and>
   sweepQuery 2000 sweepWorld (js ''mods/a/1/f'', js ''h1'') = None \<and>
   sweepQuery 2000 sweepWorld (js ''mods/b/1/f'', js ''h2'') = Some 5000 \<and>
   removeExpiredTrackers noFaults 2000 sweepWorld = sweepWorld"
  by (simp add: sweepWorld_def emptyWorld_def sweepQuery_def findTrackers_def MoreThan_def
      removeExpiredTrackers_def noFaults_def js_Nil js_Cons)

subsection \<open>Construction with a complete configuration\<close>

text \<open>
  Claim C6, on the code. With access key, secret key and endpoint all present, the
  constructor logs the warning of a missing configuration and creates no client, and
  \<^verbatim>\<open>startListening\<close> subscribes to nothing and schedules no sweep.
\<close>

theorem full_config_degraded:
  "truthy (accessKey fullCfg) \<and> truthy (secretKey fullCfg) \<and> truthy (endPoint fullCfg) \<and>
   newDownloadCounterService fullCfg =
     Inr (\<lparr>cfg = fullCfg, client = None, modNotificationEmitter = None, removalTask = None\<rparr>,
          [MissingStorageClientConfig]) \<and>
   (case newDownloadCounterService fullCfg of
      Inl e \<Rightarrow> Inl e
    | Inr (s, l) \<Rightarrow> Inr (startListening s)) =
     Inr (\<lparr>cfg = fullCfg, client = None, modNotificationEmitter = None, removalTask = None\<rparr>,
          [NoStorageClientConfigured])"
  by (simp add: newDownloadCounterService_def startListening_def truthy_def fullCfg_def
      js_Nil js_Cons)

text \<open>
  The other branch: with both keys present and the endpoint absent or empty, the
  constructor hands that endpoint to \<^verbatim>\<open>new Client\<close> and throws.
\<close>

lemma newDownloadCounterService_no_endpoint:
  "truthy (accessKey c) \<Longrightarrow> truthy (secretKey c) \<Longrightarrow> \<not> truthy (endPoint c) \<Longrightarrow>
   newDownloadCounterService c = Inl InvalidEndpointError"
  by (simp add: newDownloadCounterService_def newClient_def)

subsection \<open>A failing tracker table\<close>

text \<open>
  Claim C7, on the code. When \<^verbatim>\<open>DownloadTracker.findOne\<close> rejects, the promise of
  \<^verbatim>\<open>processNotification\<close> rejects with that error, and nothing has been logged: the
  failure leaves the handler.
\<close>

theorem tracker_failure_escapes:
  "processNotification md5hex findOneFails now now' superModNotif superModWorld =
     (Some (StorageError TrackerFindOne), superModWorld) \<and>
   console superModWorld = []"
  by (simp add: processNotification_def findOneFails_def superModWorld_def emptyWorld_def)

subsection \<open>Duplicate delivery\<close>

text \<open>
  Claim C8, on the code. The notification for \<open>mods/super-mod/1.2.0/file.zip\<close> from
  host \<open>1.2.3.4\<close> is delivered at 1000 and again at 2000, inside one tracking window.
  The \<open>downloadCount\<close> of \<open>super-mod@1.2.0\<close> is 0 before and 0 after both deliveries:
  the two deliveries add 0 in total, not 1.
\<close>

theorem duplicate_delivery_counts_zero:
  "map downloadCount (modVersions superModWorld) = [0] \<and>
   map downloadCount
     (modVersions
       (snd (processNotification md5hex noFaults 2000 2000 superModNotif
          (snd (processNotification md5hex noFaults 1000 1000 superModNotif superModWorld))))) = [0]"
  by (simp add: processNotification_tables superModWorld_def emptyWorld_def superModVersion_def)

subsection \<open>The durations\<close>

text \<open>
  Claim C9, on the code. \<open>TRACKING_DURATION\<close> and \<open>RESET_INTERVAL\<close> are both 60,000
  milliseconds, one minute, and neither is the 3,600,000 milliseconds of one hour.
\<close>

theorem durations_one_minute:
  "TRACKING_DURATION = 60000 \<and> RESET_INTERVAL = 60000 \<and>
   TRACKING_DURATION \<noteq> ONE_HOUR_MS \<and> RESET_INTERVAL \<noteq> ONE_HOUR_MS"
  by (simp add: TRACKING_DURATION_def RESET_INTERVAL_def ONE_HOUR_MS_def)

subsection \<open>What the handler writes to the tracker table\<close>




end
